theory Spec2Isabelle
  imports Main
begin

section \<open>Data model: the job object published by the service\<close>

text \<open>
  The interfaces of \<^verbatim>\<open>types/index.ts\<close>. An optional field (\<^verbatim>\<open>error?: string\<close>) is an
  \<open>option\<close>; \<^verbatim>\<open>number\<close> fields that hold counts are \<open>int\<close>. Field names are the
  source's, except \<open>vid\<close> (the source's \<^verbatim>\<open>id\<close>) and \<open>result_error\<close> (the source's
  \<^verbatim>\<open>error\<close> of \<^verbatim>\<open>ExtractResult\<close>), which would collide with other constants.
\<close>

datatype AudioFormat = MP3 | M4A | WAV | OPUS

datatype AudioQuality = Q128 | Q192 | Q256 | Q320

datatype JobStatus =
  Pending | Processing | Downloading | Extracting | Uploading | Completed | Failed

record VideoInfo =
  vid :: string
  title :: string
  duration_seconds :: int
  duration_formatted :: string
  thumbnail :: "string option"
  source :: string
  channel :: "string option"

record ExtractResult =
  success :: bool
  audio_url :: "string option"
  filename :: "string option"
  file_size :: "string option"
  format :: "string option"
  quality :: "string option"
  result_error :: "string option"

text \<open>
  \<^verbatim>\<open>JobResponse\<close> is imported by the hook from \<^verbatim>\<open>../types\<close>; the declaration under
  that name is not among the sources. It is taken to have the fields of the \<^verbatim>\<open>Job\<close>
  interface, which are the ones the hook reads (\<^verbatim>\<open>job_id\<close>, \<^verbatim>\<open>status\<close>, \<^verbatim>\<open>progress\<close>,
  \<^verbatim>\<open>video_info\<close>, \<^verbatim>\<open>result?.error\<close>).
\<close>

record JobResponse =
  job_id :: string
  status :: JobStatus
  progress :: int
  message :: string
  created_at :: string
  video_info :: "VideoInfo option"
  result :: "ExtractResult option"

section \<open>Thrown values and promises\<close>

text \<open>
  What a \<^verbatim>\<open>catch\<close> can receive: an \<^verbatim>\<open>Error\<close> with its message, one of its subclasses
  (\<^verbatim>\<open>ApiError\<close> carries the HTTP status as well), or a value that is no \<^verbatim>\<open>Error\<close> at all.
\<close>

datatype thrown =
    Error string
  | ApiError nat string
  | TypeError string
  | SyntaxError string
  | NonError

fun instanceof_Error :: "thrown \<Rightarrow> bool" where
  "instanceof_Error NonError = False"
| "instanceof_Error _ = True"

fun err_message :: "thrown \<Rightarrow> string" where
  "err_message (Error m) = m"
| "err_message (ApiError _ m) = m"
| "err_message (TypeError m) = m"
| "err_message (SyntaxError m) = m"
| "err_message NonError = []"

text \<open>The outcome of an awaited promise: it rejects with a thrown value or resolves.\<close>

datatype 'a promise = Rejected thrown | Resolved 'a

text \<open>
  Reading a property of \<^verbatim>\<open>null\<close> throws a \<^verbatim>\<open>TypeError\<close>; the wording of its message is
  the engine's (here V8's).
\<close>

definition null_property :: "string \<Rightarrow> thrown" where
  "null_property p =
     TypeError (''Cannot read properties of null (reading '' @ [CHR 0x27] @ p @ [CHR 0x27] @ '')'')"

section \<open>The polling controller: \<^verbatim>\<open>useExtract\<close> with persistence\<close>

text \<open>
  The hook's state (\<^verbatim>\<open>useState\<close> cells and \<^verbatim>\<open>useRef\<close> cells), together with the
  part of the browser it acts on: \<^verbatim>\<open>localStorage\<close>, the table of running interval timers,
  and a trace of the calls that leave the hook, in the order they are made. The callbacks
  \<^verbatim>\<open>onComplete\<close> and \<^verbatim>\<open>onError\<close> are supplied by the caller; a call of one is recorded in
  the trace with its argument.

  An \<^verbatim>\<open>async\<close> function is split at its \<^verbatim>\<open>await\<close>: the part that runs when it is called
  (suffix \<open>_request\<close>) and the part that runs when the awaited promise settles (suffix
  \<open>_settle\<close>). Between the two, any other operation of the hook may run.
\<close>

datatype timer = Timer nat

datatype effect =
    GetJob string
  | GetVideoInfo string
  | StartExtraction string AudioFormat AudioQuality
  | SetInterval timer int
  | ClearInterval timer
  | OnComplete JobResponse
  | OnError thrown
  | ConsoleError thrown

record hook =
  isLoading :: bool
  isPolling :: bool
  job :: "JobResponse option"
  videoInfo :: "VideoInfo option"
  error :: "string option"
  pollingRef :: "timer option"
  jobIdRef :: "string option"
  localStorage :: "string \<rightharpoonup> string"
  timers :: "(timer \<times> int) list"
  next_timer :: nat
  trace :: "effect list"

record options =
  pollingInterval :: "int option"

definition interval :: "options \<Rightarrow> int" where
  "interval opts = (case pollingInterval opts of None \<Rightarrow> 1000 | Some ms \<Rightarrow> ms)"

definition STORAGE_KEY :: string where
  "STORAGE_KEY = ''video-to-audio-current-job''"

definition emit :: "effect \<Rightarrow> hook \<Rightarrow> hook" where
  "emit e s = s\<lparr>trace := trace s @ [e]\<rparr>"

definition saveJobId :: "string \<Rightarrow> hook \<Rightarrow> hook" where
  "saveJobId jobId s = s\<lparr>localStorage := (localStorage s)(STORAGE_KEY \<mapsto> jobId)\<rparr>"

definition clearJobId :: "hook \<Rightarrow> hook" where
  "clearJobId s = s\<lparr>localStorage := (localStorage s)(STORAGE_KEY := None)\<rparr>"

definition getSavedJobId :: "hook \<Rightarrow> string option" where
  "getSavedJobId s = localStorage s STORAGE_KEY"

text \<open>
  \<^verbatim>\<open>setInterval\<close> returns a fresh handle, which is always truthy (a positive integer in a
  browser), and the timer runs until \<^verbatim>\<open>clearInterval\<close> is called with that handle.
\<close>

definition setInterval :: "int \<Rightarrow> hook \<Rightarrow> timer \<times> hook" where
  "setInterval ms s =
     (let t = Timer (next_timer s)
      in (t, emit (SetInterval t ms)
               (s\<lparr>timers := timers s @ [(t, ms)], next_timer := Suc (next_timer s)\<rparr>)))"

definition clearInterval :: "timer \<Rightarrow> hook \<Rightarrow> hook" where
  "clearInterval t s =
     emit (ClearInterval t) (s\<lparr>timers := filter (\<lambda>(t', ms). t' \<noteq> t) (timers s)\<rparr>)"

text \<open>
  The block \<^verbatim>\<open>if (pollingRef.current) { clearInterval(pollingRef.current);
  pollingRef.current = null; }\<close>, which \<^verbatim>\<open>pollJob\<close>, \<^verbatim>\<open>extract\<close> and \<^verbatim>\<open>reset\<close> share.
\<close>

definition clear_polling :: "hook \<Rightarrow> hook" where
  "clear_polling s =
     (case pollingRef s of
        None \<Rightarrow> s
      | Some t \<Rightarrow> (clearInterval t s)\<lparr>pollingRef := None\<rparr>)"

text \<open>\<^verbatim>\<open>x || d\<close> for an optional string \<open>x\<close>: \<^verbatim>\<open>undefined\<close> and the empty string are falsy.\<close>

definition or_else :: "string option \<Rightarrow> string \<Rightarrow> string" where
  "or_else x d = (case x of None \<Rightarrow> d | Some m \<Rightarrow> if m = [] then d else m)"

text \<open>\<^verbatim>\<open>updatedJob.result?.error\<close>\<close>

definition result_error_of :: "JobResponse \<Rightarrow> string option" where
  "result_error_of j = (case result j of None \<Rightarrow> None | Some r \<Rightarrow> result_error r)"

text \<open>\<^verbatim>\<open>if (j.video_info) setVideoInfo(j.video_info)\<close>\<close>

definition update_videoInfo :: "JobResponse \<Rightarrow> hook \<Rightarrow> hook" where
  "update_videoInfo j s =
     (case video_info j of None \<Rightarrow> s | Some vi \<Rightarrow> s\<lparr>videoInfo := Some vi\<rparr>)"

text \<open>
  \<^verbatim>\<open>pollJob(jobId)\<close>: the call issues \<^verbatim>\<open>api.getJob(jobId)\<close>; the rest runs when that
  promise settles. A payload that is JSON \<^verbatim>\<open>null\<close> (\<open>Resolved None\<close>) is stored and then
  throws at \<^verbatim>\<open>updatedJob.video_info\<close>, inside the \<^verbatim>\<open>try\<close>.
\<close>

definition pollJob_request :: "string \<Rightarrow> hook \<Rightarrow> hook" where
  "pollJob_request jobId s = emit (GetJob jobId) s"

definition pollJob_settle :: "JobResponse option promise \<Rightarrow> hook \<Rightarrow> hook" where
  "pollJob_settle p s =
     (case p of
        Rejected err \<Rightarrow> emit (ConsoleError err) s
      | Resolved None \<Rightarrow> emit (ConsoleError (null_property ''video_info'')) (s\<lparr>job := None\<rparr>)
      | Resolved (Some updatedJob) \<Rightarrow>
          (let s1 = update_videoInfo updatedJob (s\<lparr>job := Some updatedJob\<rparr>)
           in if status updatedJob = Completed then
                emit (OnComplete updatedJob)
                  (clearJobId (clear_polling (s1\<lparr>isPolling := False\<rparr>)))
              else if status updatedJob = Failed then
                emit (OnError (Error (or_else (result_error_of updatedJob) ''Error'')))
                  (clearJobId (clear_polling
                    (s1\<lparr>isPolling := False,
                        error := Some (or_else (result_error_of updatedJob)
                                   (''Error en la extracci'' @ [CHR 0xF3] @ ''n''))\<rparr>)))
              else s1))"

text \<open>
  \<^verbatim>\<open>startPolling(jobId)\<close>: one poll at once, then one on every tick of a new interval
  timer. The reference \<^verbatim>\<open>pollingRef.current\<close> is overwritten with the new handle; the
  function does not look at the handle it held before.
\<close>

definition startPolling :: "options \<Rightarrow> string \<Rightarrow> hook \<Rightarrow> hook" where
  "startPolling opts jobId s =
     (let s1 = pollJob_request jobId
                 (s\<lparr>jobIdRef := Some jobId, isPolling := True, isLoading := False\<rparr>);
          (t, s2) = setInterval (interval opts) s1
      in s2\<lparr>pollingRef := Some t\<rparr>)"

text \<open>
  One firing of an interval timer: the browser runs the callback
  \<^verbatim>\<open>() => { if (jobIdRef.current) pollJob(jobIdRef.current) }\<close> only while the timer
  has not been cleared. The empty string is falsy, like \<^verbatim>\<open>null\<close>.
\<close>

definition running :: "timer \<Rightarrow> hook \<Rightarrow> bool" where
  "running t s = (t \<in> fst ` set (timers s))"

definition tick :: "timer \<Rightarrow> hook \<Rightarrow> hook" where
  "tick t s =
     (if running t s then
        (case jobIdRef s of
           None \<Rightarrow> s
         | Some jobId \<Rightarrow> if jobId = [] then s else pollJob_request jobId s)
      else s)"

text \<open>The initial values of the hook's cells, over the storage found at start-up.\<close>

definition mount :: "(string \<rightharpoonup> string) \<Rightarrow> hook" where
  "mount store =
     \<lparr>isLoading = False, isPolling = False, job = None, videoInfo = None, error = None,
      pollingRef = None, jobIdRef = None, localStorage = store, timers = [],
      next_timer = 1, trace = []\<rparr>"

text \<open>
  The mount effect (resumption). \<open>resume_request\<close> returns the identifier whose status
  it asked for, if it asked; \<open>resume_settle\<close> is the \<^verbatim>\<open>then\<close>/\<^verbatim>\<open>catch\<close> pair.
\<close>

definition resume_request :: "hook \<Rightarrow> hook \<times> string option" where
  "resume_request s =
     (case getSavedJobId s of
        None \<Rightarrow> (s, None)
      | Some savedJobId \<Rightarrow>
          if savedJobId = [] then (s, None)
          else (emit (GetJob savedJobId) s, Some savedJobId))"

definition in_progress :: "JobStatus \<Rightarrow> bool" where
  "in_progress st = (st \<in> set [Pending, Processing, Downloading, Extracting, Uploading])"

definition resume_settle ::
  "options \<Rightarrow> string \<Rightarrow> JobResponse option promise \<Rightarrow> hook \<Rightarrow> hook" where
  "resume_settle opts savedJobId p s =
     (case p of
        Rejected err \<Rightarrow> clearJobId s
      | Resolved None \<Rightarrow> clearJobId s
      | Resolved (Some existingJob) \<Rightarrow>
          (let s1 = update_videoInfo existingJob (s\<lparr>job := Some existingJob\<rparr>)
           in if in_progress (status existingJob) then startPolling opts savedJobId s1
              else (let s2 = clearJobId s1
                    in if status existingJob = Completed
                       then emit (OnComplete existingJob) s2 else s2)))"

text \<open>The cleanup of the mount effect: the timer is cleared, the reference is kept.\<close>

definition unmount :: "hook \<Rightarrow> hook" where
  "unmount s = (case pollingRef s of None \<Rightarrow> s | Some t \<Rightarrow> clearInterval t s)"

text \<open>
  \<^verbatim>\<open>extract(url, format, quality)\<close>: the clean-up and the request run at the call, the
  rest when \<^verbatim>\<open>api.startExtraction\<close> settles. The function returns the new job, or
  \<^verbatim>\<open>null\<close> from its \<^verbatim>\<open>catch\<close>.
\<close>

definition extract_request :: "string \<Rightarrow> AudioFormat \<Rightarrow> AudioQuality \<Rightarrow> hook \<Rightarrow> hook" where
  "extract_request url fmt q s =
     emit (StartExtraction url fmt q)
       ((clear_polling s)\<lparr>isLoading := True, isPolling := False, error := None, job := None\<rparr>)"

definition extract_catch :: "thrown \<Rightarrow> hook \<Rightarrow> hook \<times> JobResponse option" where
  "extract_catch err s =
     (let message = (if instanceof_Error err then err_message err
                     else ''Error al iniciar extracci'' @ [CHR 0xF3] @ ''n'')
      in (emit (OnError (if instanceof_Error err then err else Error message))
            (s\<lparr>error := Some message, isLoading := False\<rparr>),
          None))"

definition extract_settle ::
  "options \<Rightarrow> JobResponse option promise \<Rightarrow> hook \<Rightarrow> hook \<times> JobResponse option" where
  "extract_settle opts p s =
     (case p of
        Rejected err \<Rightarrow> extract_catch err s
      | Resolved None \<Rightarrow> extract_catch (null_property ''job_id'') (s\<lparr>job := None\<rparr>)
      | Resolved (Some newJob) \<Rightarrow>
          (startPolling opts (job_id newJob)
             (saveJobId (job_id newJob) (s\<lparr>job := Some newJob\<rparr>)),
           Some newJob))"

text \<open>
  A call of \<^verbatim>\<open>extract\<close> during which nothing else runs (\<open>extract\<close> itself is a
  reserved word of the theory language).
\<close>

definition extract_call ::
  "options \<Rightarrow> string \<Rightarrow> AudioFormat \<Rightarrow> AudioQuality \<Rightarrow> JobResponse option promise \<Rightarrow> hook
     \<Rightarrow> hook \<times> JobResponse option" where
  "extract_call opts url fmt q p s = extract_settle opts p (extract_request url fmt q s)"

text \<open>\<^verbatim>\<open>reset()\<close>\<close>

definition reset :: "hook \<Rightarrow> hook" where
  "reset s =
     (clearJobId (clear_polling s))
       \<lparr>isLoading := False, isPolling := False, job := None, videoInfo := None,
        error := None, jobIdRef := None\<rparr>"

text \<open>
  \<^verbatim>\<open>fetchInfo(url)\<close>: the lookup of video metadata. It returns the metadata, or
  \<^verbatim>\<open>null\<close> from its \<^verbatim>\<open>catch\<close>; the \<^verbatim>\<open>finally\<close> block clears the loading flag on both
  paths.
\<close>

definition fetchInfo_request :: "string \<Rightarrow> hook \<Rightarrow> hook" where
  "fetchInfo_request url s =
     emit (GetVideoInfo url) (s\<lparr>isLoading := True, error := None, videoInfo := None\<rparr>)"

definition fetchInfo_settle ::
  "VideoInfo option promise \<Rightarrow> hook \<Rightarrow> hook \<times> VideoInfo option" where
  "fetchInfo_settle p s =
     (case p of
        Resolved info \<Rightarrow> (s\<lparr>videoInfo := info, isLoading := False\<rparr>, info)
      | Rejected err \<Rightarrow>
          (let message = (if instanceof_Error err then err_message err
                          else ''Error al obtener informaci'' @ [CHR 0xF3] @ ''n'')
           in (s\<lparr>error := Some message, isLoading := False\<rparr>, None)))"

text \<open>
  Everything that can make the hook run: a call of one of the three functions it
  returns, the mount effect and its clean-up, a tick of a timer, and the settling of a
  promise it awaits. \<open>step\<close> runs the code that belongs to the event; it does not ask
  whether the settled request was ever made, so it covers every order of events.
\<close>

datatype event =
    FetchInfoCalled string
  | FetchInfoSettled "VideoInfo option promise"
  | ExtractCalled string AudioFormat AudioQuality
  | ExtractSettled "JobResponse option promise"
  | Mounted
  | ResumeSettled string "JobResponse option promise"
  | Ticked timer
  | PollSettled "JobResponse option promise"
  | ResetCalled
  | Unmounted

fun step :: "options \<Rightarrow> event \<Rightarrow> hook \<Rightarrow> hook" where
  "step opts (FetchInfoCalled url) s = fetchInfo_request url s"
| "step opts (FetchInfoSettled p) s = fst (fetchInfo_settle p s)"
| "step opts (ExtractCalled url fmt q) s = extract_request url fmt q s"
| "step opts (ExtractSettled p) s = fst (extract_settle opts p s)"
| "step opts Mounted s = fst (resume_request s)"
| "step opts (ResumeSettled savedJobId p) s = resume_settle opts savedJobId p s"
| "step opts (Ticked t) s = tick t s"
| "step opts (PollSettled p) s = pollJob_settle p s"
| "step opts ResetCalled s = reset s"
| "step opts Unmounted s = unmount s"

section \<open>The hook without persistence\<close>

text \<open>
  The other \<^verbatim>\<open>useExtract\<close> of the repository has no storage and no \<^verbatim>\<open>startPolling\<close>:
  its \<^verbatim>\<open>extract\<close> starts the interval timer itself. The part that runs at the call is
  the same as above; this is the part that runs when \<^verbatim>\<open>api.startExtraction\<close> settles.
\<close>

definition legacy_extract_settle ::
  "options \<Rightarrow> JobResponse option promise \<Rightarrow> hook \<Rightarrow> hook \<times> JobResponse option" where
  "legacy_extract_settle opts p s =
     (case p of
        Rejected err \<Rightarrow> extract_catch err s
      | Resolved None \<Rightarrow> extract_catch (null_property ''job_id'') (s\<lparr>job := None\<rparr>)
      | Resolved (Some newJob) \<Rightarrow>
          (let s1 = s\<lparr>job := Some newJob, jobIdRef := Some (job_id newJob),
                      isPolling := True, isLoading := False\<rparr>;
               (t, s2) = setInterval (interval opts) s1
           in (s2\<lparr>pollingRef := Some t\<rparr>, Some newJob)))"

section \<open>The API client\<close>

text \<open>
  A parsed JSON body. A number is given by the string that JavaScript prints for it
  (\<^verbatim>\<open>0\<close> for zero, \<^verbatim>\<open>1.5\<close>, \<^verbatim>\<open>1e+21\<close>): that string is all the client's code can
  observe of a number.
\<close>

datatype json =
    JNull
  | JBool bool
  | JNum string
  | JStr string
  | JArr "json list"
  | JObj "(string \<times> json) list"

text \<open>
  \<^verbatim>\<open>error.detail\<close>: \<^verbatim>\<open>undefined\<close> (\<open>None\<close>) unless \<^verbatim>\<open>error\<close> is an object with that
  key (the last one wins when the key is repeated); on \<^verbatim>\<open>null\<close> the access throws.
\<close>

fun detail_of :: "json \<Rightarrow> thrown + json option" where
  "detail_of JNull = Inl (null_property ''detail'')"
| "detail_of (JObj kvs) = Inr (map_of (rev kvs) ''detail'')"
| "detail_of _ = Inr None"

fun truthy :: "json \<Rightarrow> bool" where
  "truthy JNull = False"
| "truthy (JBool b) = b"
| "truthy (JNum p) = (p \<noteq> ''0'')"
| "truthy (JStr s) = (s \<noteq> [])"
| "truthy (JArr xs) = True"
| "truthy (JObj kvs) = True"

text \<open>\<^verbatim>\<open>a || b\<close>, where \<^verbatim>\<open>a\<close> may be \<^verbatim>\<open>undefined\<close>.\<close>

definition js_or :: "json option \<Rightarrow> json \<Rightarrow> json" where
  "js_or a b = (case a of None \<Rightarrow> b | Some v \<Rightarrow> if truthy v then v else b)"

definition digit :: "nat \<Rightarrow> char" where
  "digit d = ''0123456789'' ! d"

fun show_nat :: "nat \<Rightarrow> string" where
  "show_nat n = (if n < 10 then [digit n] else show_nat (n div 10) @ [digit (n mod 10)])"

declare show_nat.simps [simp del]

text \<open>
  The string conversion that \<^verbatim>\<open>new Error(v)\<close> applies to its argument. An array is its
  elements joined by commas, with \<^verbatim>\<open>null\<close> elements left empty. An object is
  \<^verbatim>\<open>[object Object]\<close>, unless it has a key \<^verbatim>\<open>toString\<close> of its own: the value under
  that key is no function, the inherited \<^verbatim>\<open>valueOf\<close> returns the object itself, and
  the conversion throws a \<^verbatim>\<open>TypeError\<close> (whose wording is the engine's, here V8's).
\<close>

definition not_primitive :: thrown where
  "not_primitive = TypeError ''Cannot convert object to primitive value''"

fun js_String :: "json \<Rightarrow> thrown + string" and js_join :: "json list \<Rightarrow> thrown + string" where
  "js_String JNull = Inr ''null''"
| "js_String (JBool b) = Inr (if b then ''true'' else ''false'')"
| "js_String (JNum p) = Inr p"
| "js_String (JStr s) = Inr s"
| "js_String (JArr xs) = js_join xs"
| "js_String (JObj kvs) =
     (if ''toString'' \<in> set (map fst kvs) then Inl not_primitive
      else Inr ''[object Object]'')"
| "js_join [] = Inr []"
| "js_join [x] = (if x = JNull then Inr [] else js_String x)"
| "js_join (x # y # ys) =
     (case (if x = JNull then Inr [] else js_String x) of
        Inl e \<Rightarrow> Inl e
      | Inr a \<Rightarrow>
          (case js_join (y # ys) of
             Inl e \<Rightarrow> Inl e
           | Inr b \<Rightarrow> Inr (a @ '','' @ b)))"

text \<open>
  What \<^verbatim>\<open>fetch\<close> resolves with, as far as the client looks at it: the status, and what
  \<^verbatim>\<open>response.json()\<close> settles with (\<open>Inl\<close>: the body is not JSON and the promise
  rejects).
\<close>

record http_response =
  http_status :: nat
  body :: "thrown + json"

definition ok :: "http_response \<Rightarrow> bool" where
  "ok response = (200 \<le> http_status response \<and> http_status response \<le> 299)"

text \<open>
  \<^verbatim>\<open>request(endpoint, options)\<close> of the client the persistent hook uses; the argument
  is what its \<^verbatim>\<open>fetch\<close> settled with.
\<close>

definition request :: "http_response promise \<Rightarrow> thrown + json" where
  "request f =
     (case f of
        Rejected e \<Rightarrow> Inl e
      | Resolved response \<Rightarrow>
          if \<not> ok response then
            (let error = (case body response of
                            Inl e \<Rightarrow> JObj [(''detail'', JStr ''Error desconocido'')]
                          | Inr v \<Rightarrow> v)
             in case detail_of error of
                  Inl e \<Rightarrow> Inl e
                | Inr d \<Rightarrow>
                    (case js_String
                            (js_or d (JStr (''HTTP '' @ show_nat (http_status response)))) of
                       Inl e \<Rightarrow> Inl e
                     | Inr m \<Rightarrow> Inl (Error m)))
          else body response)"

text \<open>\<^verbatim>\<open>handleResponse(response)\<close> of the client that throws \<^verbatim>\<open>ApiError\<close>.\<close>

definition handleResponse :: "http_response \<Rightarrow> thrown + json" where
  "handleResponse response =
     (if \<not> ok response then
        (let error = (case body response of
                        Inl e \<Rightarrow> JObj [(''detail'', JStr ''Error desconocido'')]
                      | Inr v \<Rightarrow> v)
         in case detail_of error of
              Inl e \<Rightarrow> Inl e
            | Inr d \<Rightarrow>
                (case js_String (js_or d (JStr ''Error en la solicitud'')) of
                   Inl e \<Rightarrow> Inl e
                 | Inr m \<Rightarrow> Inl (ApiError (http_status response) m)))
      else body response)"

section \<open>Observations on a trace\<close>

text \<open>How often a callback was called, a timer was cleared, a status was asked for.\<close>

fun is_callback :: "effect \<Rightarrow> bool" where
  "is_callback (OnComplete j) = True"
| "is_callback (OnError e) = True"
| "is_callback _ = False"

fun is_cancel :: "effect \<Rightarrow> bool" where
  "is_cancel (ClearInterval t) = True"
| "is_cancel _ = False"

fun is_fetch :: "effect \<Rightarrow> bool" where
  "is_fetch (GetJob i) = True"
| "is_fetch _ = False"

definition callbacks :: "hook \<Rightarrow> effect list" where
  "callbacks s = filter is_callback (trace s)"

definition cancels :: "hook \<Rightarrow> effect list" where
  "cancels s = filter is_cancel (trace s)"

definition fetches :: "hook \<Rightarrow> effect list" where
  "fetches s = filter is_fetch (trace s)"

text \<open>What a step added to the trace.\<close>

definition added :: "hook \<Rightarrow> hook \<Rightarrow> effect list" where
  "added s s' = drop (length (trace s)) (trace s')"

section \<open>Vocabulary of the properties\<close>

text \<open>
  The terminal statuses; the callback call that answers a terminal job; and the
  \<^verbatim>\<open>clearInterval\<close> call that the shared clean-up block makes, if the hook holds a timer.
\<close>

definition terminal :: "JobStatus \<Rightarrow> bool" where
  "terminal st = (st = Completed \<or> st = Failed)"

text \<open>
  What an event does to the persisted identifier: the answer to a submission that
  carries a job writes that job's identifier; a terminal status, whether a poll or the
  mount effect observes it, clears the slot; so does the answer to the mount effect's
  request when it is a failure or carries no job; so does \<^verbatim>\<open>reset()\<close>. Every other
  event keeps the slot.
\<close>

datatype slot_change = Kept | Written string | Cleared

fun slot_effect :: "event \<Rightarrow> slot_change" where
  "slot_effect (ExtractSettled (Resolved (Some j))) = Written (job_id j)"
| "slot_effect (PollSettled (Resolved (Some j))) = (if terminal (status j) then Cleared else Kept)"
| "slot_effect (ResumeSettled i (Resolved (Some j))) =
     (if terminal (status j) then Cleared else Kept)"
| "slot_effect (ResumeSettled i p) = Cleared"
| "slot_effect ResetCalled = Cleared"
| "slot_effect ev = Kept"

definition outcome :: "JobResponse \<Rightarrow> effect" where
  "outcome j =
     (if status j = Completed then OnComplete j
      else OnError (Error (or_else (result_error_of j) ''Error'')))"

definition held_timer_cancel :: "hook \<Rightarrow> effect list" where
  "held_timer_cancel s = (case pollingRef s of None \<Rightarrow> [] | Some t \<Rightarrow> [ClearInterval t])"

text \<open>The only timer that runs, if any, is the one the hook holds.\<close>

definition single_loop :: "hook \<Rightarrow> bool" where
  "single_loop s =
     (map fst (timers s) = (case pollingRef s of None \<Rightarrow> [] | Some t \<Rightarrow> [t]))"

section \<open>Scenarios\<close>

text \<open>
  Concrete runs that the properties below are evaluated on: a hook with the default
  options, a job with a given identifier, status and result, and the state after a
  successful submission over empty storage (the timer is \<open>Timer 1\<close> and the first status
  request is in flight).
\<close>

definition default_options :: options where
  "default_options = \<lparr>pollingInterval = None\<rparr>"

definition sample_job :: "string \<Rightarrow> JobStatus \<Rightarrow> ExtractResult option \<Rightarrow> JobResponse" where
  "sample_job i st r =
     \<lparr>job_id = i, status = st, progress = 0, message = [], created_at = [],
      video_info = None, result = r\<rparr>"

definition polling_started :: hook where
  "polling_started =
     fst (extract_call default_options ''https://youtube.com/watch?v=XYZ'' MP3 Q192
            (Resolved (Some (sample_job ''abc'' Pending None))) (mount Map.empty))"

text \<open>
  The race: the first tick fires while the immediate request is still in flight, and
  both requests are answered with the completed job.
\<close>

definition overlapping_run :: hook where
  "overlapping_run =
     pollJob_settle (Resolved (Some (sample_job ''abc'' Completed None)))
       (pollJob_settle (Resolved (Some (sample_job ''abc'' Completed None)))
          (tick (Timer 1) polling_started))"

text \<open>Start-up over storage that holds the identifier \<open>abc\<close>: the status request is out.\<close>

definition resumed_hook :: hook where
  "resumed_hook = fst (resume_request (mount [STORAGE_KEY \<mapsto> ''abc'']))"

text \<open>The same submission as \<open>polling_started\<close>, made through the hook without persistence.\<close>

definition legacy_polling_started :: hook where
  "legacy_polling_started =
     fst (legacy_extract_settle default_options
            (Resolved (Some (sample_job ''abc'' Pending None)))
            (extract_request ''https://youtube.com/watch?v=XYZ'' MP3 Q192 (mount Map.empty)))"

text \<open>Start-up over storage whose slot holds the empty string.\<close>

definition empty_id_stored :: hook where
  "empty_id_stored = mount [STORAGE_KEY \<mapsto> []]"

text \<open>A loop started for a job whose identifier is the empty string.\<close>

definition empty_id_polling :: hook where
  "empty_id_polling = startPolling default_options [] (mount Map.empty)"

text \<open>
  Two starts that overlap. In the first run the page is loaded with the identifier
  \<open>old\<close> persisted and the user submits before the status request of the mount effect
  is answered; that answer (\<open>processing\<close>) arrives first, the answer to the submission
  second. In the second run \<^verbatim>\<open>extract\<close> is called twice before either request is
  answered.
\<close>

definition resume_then_submit_run :: hook where
  "resume_then_submit_run =
     (let s1 = fst (resume_request (mount [STORAGE_KEY \<mapsto> ''old'']));
          s2 = extract_request ''https://youtube.com/watch?v=XYZ'' MP3 Q192 s1;
          s3 = resume_settle default_options ''old''
                 (Resolved (Some (sample_job ''old'' Processing None))) s2
      in fst (extract_settle default_options
                (Resolved (Some (sample_job ''new'' Pending None))) s3))"

definition double_submit_run :: hook where
  "double_submit_run =
     (let s1 = extract_request ''https://youtube.com/watch?v=XYZ'' MP3 Q192 (mount Map.empty);
          s2 = extract_request ''https://youtube.com/watch?v=XYZ'' MP3 Q192 s1;
          s3 = fst (extract_settle default_options
                      (Resolved (Some (sample_job ''abc'' Pending None))) s2)
      in fst (extract_settle default_options
                (Resolved (Some (sample_job ''abd'' Pending None))) s3))"

text \<open>The job \<open>abc\<close>, failed, with a result that carries the given error message.\<close>

definition failed_job :: "string option \<Rightarrow> JobResponse" where
  "failed_job m =
     sample_job ''abc'' Failed
       (Some \<lparr>success = False, audio_url = None, filename = None, file_size = None,
              format = None, quality = None, result_error = m\<rparr>)"

section \<open>Facts about the operations\<close>

text \<open>
  The definitions, collected for evaluating the scenarios, and what each operation does
  to each cell of the state.
\<close>

lemmas hook_defs =
  emit_def saveJobId_def clearJobId_def getSavedJobId_def setInterval_def clearInterval_def
  clear_polling_def update_videoInfo_def pollJob_request_def pollJob_settle_def
  startPolling_def running_def tick_def mount_def resume_request_def resume_settle_def
  unmount_def extract_request_def extract_catch_def extract_settle_def extract_call_def
  reset_def legacy_extract_settle_def callbacks_def cancels_def fetches_def added_def
  interval_def in_progress_def

lemmas fixture_defs = default_options_def sample_job_def polling_started_def

lemma added_append [simp]: "trace s' = trace s @ xs \<Longrightarrow> added s s' = xs"
  by (simp add: added_def)

lemma emit_fields [simp]:
  "trace (emit e s) = trace s @ [e]"
  "isLoading (emit e s) = isLoading s"
  "isPolling (emit e s) = isPolling s"
  "job (emit e s) = job s"
  "videoInfo (emit e s) = videoInfo s"
  "error (emit e s) = error s"
  "pollingRef (emit e s) = pollingRef s"
  "jobIdRef (emit e s) = jobIdRef s"
  "localStorage (emit e s) = localStorage s"
  "timers (emit e s) = timers s"
  "next_timer (emit e s) = next_timer s"
  by (simp_all add: emit_def)

lemma clearJobId_fields [simp]:
  "localStorage (clearJobId s) = (localStorage s)(STORAGE_KEY := None)"
  "trace (clearJobId s) = trace s"
  "isLoading (clearJobId s) = isLoading s"
  "isPolling (clearJobId s) = isPolling s"
  "job (clearJobId s) = job s"
  "videoInfo (clearJobId s) = videoInfo s"
  "error (clearJobId s) = error s"
  "pollingRef (clearJobId s) = pollingRef s"
  "jobIdRef (clearJobId s) = jobIdRef s"
  "timers (clearJobId s) = timers s"
  "next_timer (clearJobId s) = next_timer s"
  by (simp_all add: clearJobId_def)

lemma saveJobId_fields [simp]:
  "localStorage (saveJobId i s) = (localStorage s)(STORAGE_KEY \<mapsto> i)"
  "trace (saveJobId i s) = trace s"
  "isLoading (saveJobId i s) = isLoading s"
  "isPolling (saveJobId i s) = isPolling s"
  "job (saveJobId i s) = job s"
  "videoInfo (saveJobId i s) = videoInfo s"
  "error (saveJobId i s) = error s"
  "pollingRef (saveJobId i s) = pollingRef s"
  "jobIdRef (saveJobId i s) = jobIdRef s"
  "timers (saveJobId i s) = timers s"
  "next_timer (saveJobId i s) = next_timer s"
  by (simp_all add: saveJobId_def)

lemma update_videoInfo_fields [simp]:
  "videoInfo (update_videoInfo j s) = (case video_info j of None \<Rightarrow> videoInfo s | Some vi \<Rightarrow> Some vi)"
  "trace (update_videoInfo j s) = trace s"
  "isLoading (update_videoInfo j s) = isLoading s"
  "isPolling (update_videoInfo j s) = isPolling s"
  "job (update_videoInfo j s) = job s"
  "error (update_videoInfo j s) = error s"
  "pollingRef (update_videoInfo j s) = pollingRef s"
  "jobIdRef (update_videoInfo j s) = jobIdRef s"
  "localStorage (update_videoInfo j s) = localStorage s"
  "timers (update_videoInfo j s) = timers s"
  "next_timer (update_videoInfo j s) = next_timer s"
  by (simp_all add: update_videoInfo_def split: option.split)

lemma clear_polling_fields [simp]:
  "trace (clear_polling s) = trace s @ held_timer_cancel s"
  "pollingRef (clear_polling s) = None"
  "timers (clear_polling s) =
     (case pollingRef s of None \<Rightarrow> timers s
      | Some t \<Rightarrow> filter (\<lambda>(t', ms). t' \<noteq> t) (timers s))"
  "isLoading (clear_polling s) = isLoading s"
  "isPolling (clear_polling s) = isPolling s"
  "job (clear_polling s) = job s"
  "videoInfo (clear_polling s) = videoInfo s"
  "error (clear_polling s) = error s"
  "jobIdRef (clear_polling s) = jobIdRef s"
  "localStorage (clear_polling s) = localStorage s"
  "next_timer (clear_polling s) = next_timer s"
  by (simp_all add: clear_polling_def clearInterval_def emit_def held_timer_cancel_def
      split: option.split)

lemma held_timer_cancel_cong [simp]:
  "held_timer_cancel (s\<lparr>isPolling := b\<rparr>) = held_timer_cancel s"
  "held_timer_cancel (s\<lparr>error := e\<rparr>) = held_timer_cancel s"
  "held_timer_cancel (s\<lparr>job := j\<rparr>) = held_timer_cancel s"
  "held_timer_cancel (update_videoInfo k s) = held_timer_cancel s"
  by (simp_all add: held_timer_cancel_def)

lemma settle_completed:
  "status j = Completed \<Longrightarrow>
     pollJob_settle (Resolved (Some j)) s =
       emit (OnComplete j)
         (clearJobId (clear_polling ((update_videoInfo j (s\<lparr>job := Some j\<rparr>))\<lparr>isPolling := False\<rparr>)))"
  by (simp add: pollJob_settle_def Let_def)

lemma settle_failed:
  "status j = Failed \<Longrightarrow>
     pollJob_settle (Resolved (Some j)) s =
       emit (OnError (Error (or_else (result_error_of j) ''Error'')))
         (clearJobId (clear_polling
            ((update_videoInfo j (s\<lparr>job := Some j\<rparr>))
               \<lparr>isPolling := False,
                error := Some (or_else (result_error_of j)
                                (''Error en la extracci'' @ [CHR 0xF3] @ ''n''))\<rparr>)))"
  by (simp add: pollJob_settle_def Let_def)

lemma settle_terminal_trace:
  "terminal (status j) \<Longrightarrow>
     trace (pollJob_settle (Resolved (Some j)) s) = trace s @ held_timer_cancel s @ [outcome j]"
  unfolding terminal_def
  by (elim disjE) (simp_all add: settle_completed settle_failed outcome_def)

lemma settle_terminal_pollingRef:
  "terminal (status j) \<Longrightarrow> pollingRef (pollJob_settle (Resolved (Some j)) s) = None"
  unfolding terminal_def
  by (elim disjE) (simp_all add: settle_completed settle_failed)

lemma settle_terminal_timers:
  "terminal (status j) \<Longrightarrow>
     timers (pollJob_settle (Resolved (Some j)) s) =
       (case pollingRef s of None \<Rightarrow> timers s
        | Some t \<Rightarrow> filter (\<lambda>(t', ms). t' \<noteq> t) (timers s))"
  unfolding terminal_def
  by (elim disjE) (simp_all add: settle_completed settle_failed split: option.split)

lemma settle_terminal_storage:
  "terminal (status j) \<Longrightarrow>
     localStorage (pollJob_settle (Resolved (Some j)) s) = (localStorage s)(STORAGE_KEY := None)"
  unfolding terminal_def
  by (elim disjE) (simp_all add: settle_completed settle_failed)


lemma startPolling_fields [simp]:
  "trace (startPolling opts i s) =
     trace s @ [GetJob i, SetInterval (Timer (next_timer s)) (interval opts)]"
  "pollingRef (startPolling opts i s) = Some (Timer (next_timer s))"
  "timers (startPolling opts i s) = timers s @ [(Timer (next_timer s), interval opts)]"
  "jobIdRef (startPolling opts i s) = Some i"
  "isPolling (startPolling opts i s) = True"
  "isLoading (startPolling opts i s) = False"
  "job (startPolling opts i s) = job s"
  "videoInfo (startPolling opts i s) = videoInfo s"
  "error (startPolling opts i s) = error s"
  "localStorage (startPolling opts i s) = localStorage s"
  "next_timer (startPolling opts i s) = Suc (next_timer s)"
  by (simp_all add: startPolling_def pollJob_request_def setInterval_def emit_def Let_def)

lemma settle_rejected_fields [simp]:
  "trace (pollJob_settle (Rejected err) s) = trace s @ [ConsoleError err]"
  "pollingRef (pollJob_settle (Rejected err) s) = pollingRef s"
  "timers (pollJob_settle (Rejected err) s) = timers s"
  "jobIdRef (pollJob_settle (Rejected err) s) = jobIdRef s"
  "localStorage (pollJob_settle (Rejected err) s) = localStorage s"
  by (simp_all add: pollJob_settle_def)

lemma settle_in_progress:
  "\<not> terminal (status j) \<Longrightarrow>
     pollJob_settle (Resolved (Some j)) s = update_videoInfo j (s\<lparr>job := Some j\<rparr>)"
  by (simp add: pollJob_settle_def terminal_def Let_def)

lemma settle_job [simp]: "job (pollJob_settle (Resolved (Some j)) s) = Some j"
  by (cases "status j = Completed"; cases "status j = Failed")
     (simp_all add: settle_completed settle_failed settle_in_progress terminal_def)

lemma in_progress_iff: "in_progress st \<longleftrightarrow> \<not> terminal st"
  by (cases st) (simp_all add: in_progress_def terminal_def)

lemma reset_fixed:
  assumes "pollingRef u = None" and "localStorage u STORAGE_KEY = None"
    and "job u = None" and "videoInfo u = None" and "error u = None"
    and "isLoading u = False" and "isPolling u = False" and "jobIdRef u = None"
  shows "reset u = u"
  using assms
  by (cases u) (simp add: reset_def clear_polling_def clearJobId_def fun_upd_idem)

lemma extract_request_fields [simp]:
  "trace (extract_request url fmt q s) = trace s @ held_timer_cancel s @ [StartExtraction url fmt q]"
  "pollingRef (extract_request url fmt q s) = None"
  "timers (extract_request url fmt q s) =
     (case pollingRef s of None \<Rightarrow> timers s
      | Some t \<Rightarrow> filter (\<lambda>(t', ms). t' \<noteq> t) (timers s))"
  "isLoading (extract_request url fmt q s) = True"
  "isPolling (extract_request url fmt q s) = False"
  "error (extract_request url fmt q s) = None"
  "job (extract_request url fmt q s) = None"
  "videoInfo (extract_request url fmt q s) = videoInfo s"
  "jobIdRef (extract_request url fmt q s) = jobIdRef s"
  "localStorage (extract_request url fmt q s) = localStorage s"
  "next_timer (extract_request url fmt q s) = next_timer s"
  by (simp_all add: extract_request_def)

lemma extract_catch_fields [simp]:
  "snd (extract_catch err s) = None"
  "trace (fst (extract_catch err s)) =
     trace s @ [OnError (if instanceof_Error err then err
                         else Error (''Error al iniciar extracci'' @ [CHR 0xF3] @ ''n''))]"
  "error (fst (extract_catch err s)) =
     Some (if instanceof_Error err then err_message err
           else ''Error al iniciar extracci'' @ [CHR 0xF3] @ ''n'')"
  "isLoading (fst (extract_catch err s)) = False"
  "isPolling (fst (extract_catch err s)) = isPolling s"
  "job (fst (extract_catch err s)) = job s"
  "videoInfo (fst (extract_catch err s)) = videoInfo s"
  "pollingRef (fst (extract_catch err s)) = pollingRef s"
  "jobIdRef (fst (extract_catch err s)) = jobIdRef s"
  "localStorage (fst (extract_catch err s)) = localStorage s"
  "timers (fst (extract_catch err s)) = timers s"
  by (simp_all add: extract_catch_def Let_def)

lemma resume_settle_in_progress:
  "\<not> terminal (status j) \<Longrightarrow>
     resume_settle opts i (Resolved (Some j)) s =
       startPolling opts i (update_videoInfo j (s\<lparr>job := Some j\<rparr>))"
  by (simp add: resume_settle_def in_progress_iff Let_def)

lemma resume_settle_terminal:
  "terminal (status j) \<Longrightarrow>
     resume_settle opts i (Resolved (Some j)) s =
       (if status j = Completed
        then emit (OnComplete j) (clearJobId (update_videoInfo j (s\<lparr>job := Some j\<rparr>)))
        else clearJobId (update_videoInfo j (s\<lparr>job := Some j\<rparr>)))"
  by (simp add: resume_settle_def in_progress_iff Let_def)

lemma extract_call_resolved:
  "extract_call opts url fmt q (Resolved (Some j)) s =
     (startPolling opts (job_id j)
        (saveJobId (job_id j) ((extract_request url fmt q s)\<lparr>job := Some j\<rparr>)),
      Some j)"
  by (simp add: extract_call_def extract_settle_def)

lemma step_storage:
  "localStorage (step opts ev s) =
     (case slot_effect ev of
        Kept \<Rightarrow> localStorage s
      | Written i \<Rightarrow> (localStorage s)(STORAGE_KEY \<mapsto> i)
      | Cleared \<Rightarrow> (localStorage s)(STORAGE_KEY := None))"
proof (cases ev)
  case (FetchInfoCalled url)
  then show ?thesis
    by (simp add: fetchInfo_request_def)
next
  case (FetchInfoSettled p)
  then show ?thesis
    by (cases p) (simp_all add: fetchInfo_settle_def Let_def)
next
  case (ExtractCalled url fmt q)
  then show ?thesis
    by simp
next
  case (ExtractSettled p)
  show ?thesis
  proof (cases p)
    case (Rejected err)
    with ExtractSettled show ?thesis
      by (simp add: extract_settle_def)
  next
    case (Resolved r)
    with ExtractSettled show ?thesis
      by (cases r) (simp_all add: extract_settle_def)
  qed
next
  case Mounted
  then show ?thesis
    by (simp add: resume_request_def split: option.split)
next
  case (ResumeSettled i p)
  show ?thesis
  proof (cases p)
    case (Rejected err)
    with ResumeSettled show ?thesis
      by (simp add: resume_settle_def)
  next
    case (Resolved r)
    show ?thesis
    proof (cases r)
      case None
      with ResumeSettled Resolved show ?thesis
        by (simp add: resume_settle_def)
    next
      case (Some j)
      with ResumeSettled Resolved show ?thesis
        by (cases "terminal (status j)")
          (simp_all add: resume_settle_terminal resume_settle_in_progress)
    qed
  qed
next
  case (Ticked t)
  then show ?thesis
    by (simp add: tick_def pollJob_request_def split: option.split)
next
  case (PollSettled p)
  show ?thesis
  proof (cases p)
    case (Rejected err)
    with PollSettled show ?thesis
      by simp
  next
    case (Resolved r)
    show ?thesis
    proof (cases r)
      case None
      with PollSettled Resolved show ?thesis
        by (simp add: pollJob_settle_def)
    next
      case (Some j)
      with PollSettled Resolved show ?thesis
        by (cases "terminal (status j)")
          (simp_all add: settle_terminal_storage settle_in_progress)
    qed
  qed
next
  case ResetCalled
  then show ?thesis
    by (simp add: reset_def)
next
  case Unmounted
  then show ?thesis
    by (simp add: unmount_def clearInterval_def split: option.split)
qed

section \<open>Terminal observation\<close>

text \<open>
  Two status requests overlap when the first tick fires before the immediate request is
  answered. When both are answered with \<open>completed\<close>, the timer is cleared once, by the
  first answer, but \<^verbatim>\<open>onComplete\<close> is called for each answer: \<^verbatim>\<open>pollJob\<close> guards the
  \<^verbatim>\<open>clearInterval\<close> call with \<^verbatim>\<open>pollingRef.current\<close> and guards the callback with
  nothing.
\<close>

theorem overlapping_terminal_counterexample:
  "cancels overlapping_run = [ClearInterval (Timer 1)]
   \<and> callbacks overlapping_run =
       [OnComplete (sample_job ''abc'' Completed None),
        OnComplete (sample_job ''abc'' Completed None)]"
  by (simp add: overlapping_run_def fixture_defs hook_defs Let_def)

text \<open>
  C1, as the code has it. Every answer with a terminal status clears the timer the hook
  holds, if it holds one, and then makes exactly one callback call: \<^verbatim>\<open>onComplete\<close> with
  the job for \<open>completed\<close>, \<^verbatim>\<open>onError\<close> for \<open>failed\<close>. Afterwards the hook holds no timer
  and the timer it held no longer runs, so a second terminal answer clears nothing and
  adds one callback call of its own.
\<close>

theorem terminal_response_effects:
  assumes "terminal (status j1)" and "terminal (status j2)"
  shows "added s (pollJob_settle (Resolved (Some j1)) s) = held_timer_cancel s @ [outcome j1]
    \<and> pollingRef (pollJob_settle (Resolved (Some j1)) s) = None
    \<and> (case pollingRef s of None \<Rightarrow> True
        | Some t \<Rightarrow> \<not> running t (pollJob_settle (Resolved (Some j1)) s))
    \<and> added (pollJob_settle (Resolved (Some j1)) s)
         (pollJob_settle (Resolved (Some j2)) (pollJob_settle (Resolved (Some j1)) s))
       = [outcome j2]"
proof -
  let ?s1 = "pollJob_settle (Resolved (Some j1)) s"
  have first: "added s ?s1 = held_timer_cancel s @ [outcome j1]"
    using assms(1) by (simp add: settle_terminal_trace)
  have ref: "pollingRef ?s1 = None"
    using assms(1) by (rule settle_terminal_pollingRef)
  have stopped: "case pollingRef s of None \<Rightarrow> True | Some t \<Rightarrow> \<not> running t ?s1"
    using assms(1) by (auto simp: settle_terminal_timers running_def split: option.split)
  have "held_timer_cancel ?s1 = []"
    using ref by (simp add: held_timer_cancel_def)
  then have second: "added ?s1 (pollJob_settle (Resolved (Some j2)) ?s1) = [outcome j2]"
    using assms(2) by (simp add: settle_terminal_trace)
  from first ref stopped second show ?thesis by simp
qed

text \<open>The race above, read through the theorem.\<close>

theorem terminal_response_effects_witness:
  "terminal (status (sample_job ''abc'' Completed None))
   \<and> added (tick (Timer 1) polling_started)
        (pollJob_settle (Resolved (Some (sample_job ''abc'' Completed None)))
           (tick (Timer 1) polling_started))
      = [ClearInterval (Timer 1), OnComplete (sample_job ''abc'' Completed None)]
   \<and> added (pollJob_settle (Resolved (Some (sample_job ''abc'' Completed None)))
           (tick (Timer 1) polling_started)) overlapping_run
      = [OnComplete (sample_job ''abc'' Completed None)]"
proof -
  let ?j = "sample_job ''abc'' Completed None"
  have t: "terminal (status ?j)"
    by (simp add: terminal_def sample_job_def)
  have held: "held_timer_cancel (tick (Timer 1) polling_started) = [ClearInterval (Timer 1)]"
    by (simp add: held_timer_cancel_def fixture_defs hook_defs Let_def)
  have out: "outcome ?j = OnComplete ?j"
    by (simp add: outcome_def sample_job_def)
  from terminal_response_effects [OF t t, of "tick (Timer 1) polling_started"] t held out
  show ?thesis
    by (simp add: overlapping_run_def)
qed

section \<open>Reset\<close>

text \<open>
  A status request is in flight when \<^verbatim>\<open>reset()\<close> is called. Its answer is handled by
  \<^verbatim>\<open>pollJob\<close> like any other: the first thing it does is \<^verbatim>\<open>setJob(updatedJob)\<close>, so the
  job that \<^verbatim>\<open>reset()\<close> cleared is stored again. The hook has no flag that the
  continuation of \<^verbatim>\<open>pollJob\<close> could test.
\<close>

theorem reset_late_response_counterexample:
  "job (reset polling_started) = None
   \<and> job (pollJob_settle (Resolved (Some (sample_job ''abc'' Processing None)))
            (reset polling_started))
      = Some (sample_job ''abc'' Processing None)"
  by (simp add: reset_def)

text \<open>
  C2, as the code has it. \<^verbatim>\<open>reset()\<close> clears the timer the hook holds (and makes no
  other call), removes the persisted identifier, and clears the job, the video
  metadata, the error, both flags and the identifier reference; on a hook that is
  already reset it changes nothing. An answer to a status request that arrives after
  \<^verbatim>\<open>reset()\<close> stores its job again; it does not start a timer and does not persist the
  identifier.
\<close>

theorem reset_clears_state_late_response_stored:
  "pollingRef (reset s) = None
   \<and> timers (reset s) =
       (case pollingRef s of None \<Rightarrow> timers s
        | Some t \<Rightarrow> filter (\<lambda>(t', ms). t' \<noteq> t) (timers s))
   \<and> added s (reset s) = held_timer_cancel s
   \<and> getSavedJobId (reset s) = None
   \<and> job (reset s) = None \<and> videoInfo (reset s) = None \<and> error (reset s) = None
   \<and> isLoading (reset s) = False \<and> isPolling (reset s) = False
   \<and> jobIdRef (reset s) = None
   \<and> reset (reset s) = reset s
   \<and> job (pollJob_settle (Resolved (Some j)) (reset s)) = Some j
   \<and> pollingRef (pollJob_settle (Resolved (Some j)) (reset s)) = None
   \<and> timers (pollJob_settle (Resolved (Some j)) (reset s)) = timers (reset s)
   \<and> getSavedJobId (pollJob_settle (Resolved (Some j)) (reset s)) = None"
proof -
  let ?r = "reset s"
  let ?late = "pollJob_settle (Resolved (Some j)) ?r"
  have ref: "pollingRef ?r = None"
    by (simp add: reset_def)
  have cleared: "timers ?r =
       (case pollingRef s of None \<Rightarrow> timers s
        | Some t \<Rightarrow> filter (\<lambda>(t', ms). t' \<noteq> t) (timers s))"
    "added s ?r = held_timer_cancel s" "getSavedJobId ?r = None"
    "job ?r = None" "videoInfo ?r = None" "error ?r = None"
    "isLoading ?r = False" "isPolling ?r = False" "jobIdRef ?r = None"
    by (simp_all add: reset_def getSavedJobId_def)
  have again: "reset ?r = ?r"
    using ref cleared(3-9) by (intro reset_fixed) (simp_all add: getSavedJobId_def)
  have late_ref: "pollingRef ?late = None" and late_timers: "timers ?late = timers ?r"
    and late_store: "getSavedJobId ?late = None"
  proof -
    show "pollingRef ?late = None"
      using ref by (cases "terminal (status j)")
        (simp_all add: settle_terminal_pollingRef settle_in_progress)
    show "timers ?late = timers ?r"
      using ref by (cases "terminal (status j)")
        (simp_all add: settle_terminal_timers settle_in_progress)
    show "getSavedJobId ?late = None"
      using cleared(3) by (cases "terminal (status j)")
        (simp_all add: settle_terminal_storage settle_in_progress getSavedJobId_def)
  qed
  from ref cleared again late_ref late_timers late_store show ?thesis
    by simp
qed

section \<open>Resumption\<close>

text \<open>
  The mount effect tests the persisted identifier for truthiness
  (\<^verbatim>\<open>if (savedJobId)\<close>). When the slot holds the empty string, an identifier is
  persisted and yet none of the cases of C3 applies: no status is asked for, so there
  is no answer to fail or to carry a status, and the slot keeps what it holds.
\<close>

theorem empty_identifier_resume_counterexample:
  "getSavedJobId empty_id_stored = Some []
   \<and> snd (resume_request empty_id_stored) = None
   \<and> trace (fst (resume_request empty_id_stored)) = []
   \<and> getSavedJobId (fst (resume_request empty_id_stored)) = Some []"
  by (simp add: empty_id_stored_def resume_request_def getSavedJobId_def mount_def)

text \<open>
  C3, as the code has it. The mount effect, case by case. With no identifier
  persisted, or with the empty string persisted, it does nothing. With any other
  identifier persisted it asks for that job's status once. If that request fails, or
  its answer carries no job, the persisted identifier is removed and nothing else
  happens: no call, no timer. If the answer carries a status that is not terminal,
  polling starts for the persisted identifier: one status request at once and one
  interval timer, with the identifier left in storage. If the answer carries a
  terminal status, the persisted identifier is removed, no timer is started, and the
  only call is \<^verbatim>\<open>onComplete\<close> with the job, made exactly when the status is
  \<open>completed\<close>.
\<close>

theorem resume_case_analysis:
  "(getSavedJobId s = None \<longrightarrow> resume_request s = (s, None))
   \<and> (getSavedJobId s = Some [] \<longrightarrow> resume_request s = (s, None))
   \<and> (getSavedJobId s = Some i \<and> i \<noteq> [] \<longrightarrow>
        resume_request s = (emit (GetJob i) s, Some i))
   \<and> (getSavedJobId (resume_settle opts i (Rejected err) s) = None
        \<and> added s (resume_settle opts i (Rejected err) s) = []
        \<and> timers (resume_settle opts i (Rejected err) s) = timers s
        \<and> pollingRef (resume_settle opts i (Rejected err) s) = pollingRef s)
   \<and> (getSavedJobId (resume_settle opts i (Resolved None) s) = None
        \<and> added s (resume_settle opts i (Resolved None) s) = []
        \<and> timers (resume_settle opts i (Resolved None) s) = timers s
        \<and> pollingRef (resume_settle opts i (Resolved None) s) = pollingRef s)
   \<and> (\<not> terminal (status j) \<longrightarrow>
        added s (resume_settle opts i (Resolved (Some j)) s) =
          [GetJob i, SetInterval (Timer (next_timer s)) (interval opts)]
        \<and> pollingRef (resume_settle opts i (Resolved (Some j)) s) = Some (Timer (next_timer s))
        \<and> running (Timer (next_timer s)) (resume_settle opts i (Resolved (Some j)) s)
        \<and> jobIdRef (resume_settle opts i (Resolved (Some j)) s) = Some i
        \<and> isPolling (resume_settle opts i (Resolved (Some j)) s)
        \<and> localStorage (resume_settle opts i (Resolved (Some j)) s) = localStorage s)
   \<and> (terminal (status j) \<longrightarrow>
        getSavedJobId (resume_settle opts i (Resolved (Some j)) s) = None
        \<and> timers (resume_settle opts i (Resolved (Some j)) s) = timers s
        \<and> pollingRef (resume_settle opts i (Resolved (Some j)) s) = pollingRef s
        \<and> added s (resume_settle opts i (Resolved (Some j)) s) =
            (if status j = Completed then [OnComplete j] else []))"
proof (intro conjI impI)
  assume "getSavedJobId s = None"
  then show "resume_request s = (s, None)"
    by (simp add: resume_request_def)
next
  assume "getSavedJobId s = Some []"
  then show "resume_request s = (s, None)"
    by (simp add: resume_request_def)
next
  assume "getSavedJobId s = Some i \<and> i \<noteq> []"
  then show "resume_request s = (emit (GetJob i) s, Some i)"
    by (simp add: resume_request_def)
next
  let ?s' = "resume_settle opts i (Rejected err) s"
  have rej: "?s' = clearJobId s"
    by (simp add: resume_settle_def)
  show "getSavedJobId ?s' = None" "added s ?s' = []" "timers ?s' = timers s"
    "pollingRef ?s' = pollingRef s"
    by (simp_all add: rej getSavedJobId_def)
next
  let ?s' = "resume_settle opts i (Resolved None) s"
  have empty: "?s' = clearJobId s"
    by (simp add: resume_settle_def)
  show "getSavedJobId ?s' = None" "added s ?s' = []" "timers ?s' = timers s"
    "pollingRef ?s' = pollingRef s"
    by (simp_all add: empty getSavedJobId_def)
next
  let ?s' = "resume_settle opts i (Resolved (Some j)) s"
  assume "\<not> terminal (status j)"
  then have go: "?s' = startPolling opts i (update_videoInfo j (s\<lparr>job := Some j\<rparr>))"
    by (rule resume_settle_in_progress)
  show "added s ?s' = [GetJob i, SetInterval (Timer (next_timer s)) (interval opts)]"
    "pollingRef ?s' = Some (Timer (next_timer s))"
    "running (Timer (next_timer s)) ?s'"
    "jobIdRef ?s' = Some i" "isPolling ?s'" "localStorage ?s' = localStorage s"
    by (simp_all add: go running_def)
next
  let ?s' = "resume_settle opts i (Resolved (Some j)) s"
  assume t: "terminal (status j)"
  show "getSavedJobId ?s' = None" "timers ?s' = timers s" "pollingRef ?s' = pollingRef s"
    "added s ?s' = (if status j = Completed then [OnComplete j] else [])"
    by (simp_all add: resume_settle_terminal [OF t] getSavedJobId_def)
qed

text \<open>The cases on concrete storage and answers.\<close>

theorem resume_case_analysis_witness:
  "resume_request (mount Map.empty) = (mount Map.empty, None)
   \<and> resume_request empty_id_stored = (empty_id_stored, None)
   \<and> resume_request (mount [STORAGE_KEY \<mapsto> ''abc''])
       = (emit (GetJob ''abc'') (mount [STORAGE_KEY \<mapsto> ''abc'']), Some ''abc'')
   \<and> added resumed_hook
        (resume_settle default_options ''abc''
           (Resolved (Some (sample_job ''abc'' Processing None))) resumed_hook)
       = [GetJob ''abc'', SetInterval (Timer 1) 1000]
   \<and> added resumed_hook
        (resume_settle default_options ''abc''
           (Resolved (Some (sample_job ''abc'' Completed None))) resumed_hook)
       = [OnComplete (sample_job ''abc'' Completed None)]
   \<and> getSavedJobId
        (resume_settle default_options ''abc''
           (Resolved (Some (sample_job ''abc'' Completed None))) resumed_hook) = None
   \<and> timers
        (resume_settle default_options ''abc''
           (Resolved (Some (sample_job ''abc'' Completed None))) resumed_hook) = []"
proof -
  have none: "getSavedJobId (mount Map.empty) = None"
    by (simp add: getSavedJobId_def mount_def)
  have some: "getSavedJobId (mount [STORAGE_KEY \<mapsto> ''abc'']) = Some ''abc'' \<and> ''abc'' \<noteq> []"
    by (simp add: getSavedJobId_def mount_def)
  have busy: "\<not> terminal (status (sample_job ''abc'' Processing None))"
    by (simp add: terminal_def sample_job_def)
  have fin: "terminal (status (sample_job ''abc'' Completed None))"
    by (simp add: terminal_def sample_job_def)
  have st: "next_timer resumed_hook = 1" "timers resumed_hook = []"
    by (simp_all add: resumed_hook_def resume_request_def getSavedJobId_def mount_def)
  have iv: "interval default_options = 1000"
    by (simp add: interval_def default_options_def)
  have c: "status (sample_job ''abc'' Completed None) = Completed"
    by (simp add: sample_job_def)
  from resume_case_analysis [of "mount Map.empty"] none
  have 1: "resume_request (mount Map.empty) = (mount Map.empty, None)"
    by blast
  have "getSavedJobId empty_id_stored = Some []"
    by (simp add: getSavedJobId_def empty_id_stored_def mount_def)
  with resume_case_analysis [of empty_id_stored]
  have 0: "resume_request empty_id_stored = (empty_id_stored, None)"
    by blast
  from resume_case_analysis [of "mount [STORAGE_KEY \<mapsto> ''abc'']" "''abc''"] some
  have 2: "resume_request (mount [STORAGE_KEY \<mapsto> ''abc''])
       = (emit (GetJob ''abc'') (mount [STORAGE_KEY \<mapsto> ''abc'']), Some ''abc'')"
    by blast
  from resume_case_analysis
         [of resumed_hook "''abc''" default_options _ "sample_job ''abc'' Processing None"] busy
  have 3: "added resumed_hook
        (resume_settle default_options ''abc''
           (Resolved (Some (sample_job ''abc'' Processing None))) resumed_hook)
       = [GetJob ''abc'', SetInterval (Timer 1) 1000]"
    by (simp add: st iv)
  from resume_case_analysis
         [of resumed_hook "''abc''" default_options _ "sample_job ''abc'' Completed None"] fin
  have 4: "added resumed_hook
        (resume_settle default_options ''abc''
           (Resolved (Some (sample_job ''abc'' Completed None))) resumed_hook)
       = [OnComplete (sample_job ''abc'' Completed None)]
    \<and> getSavedJobId
        (resume_settle default_options ''abc''
           (Resolved (Some (sample_job ''abc'' Completed None))) resumed_hook) = None
    \<and> timers
        (resume_settle default_options ''abc''
           (Resolved (Some (sample_job ''abc'' Completed None))) resumed_hook) = []"
    by (simp add: st c)
  from 0 1 2 3 4 show ?thesis by simp
qed

section \<open>The polling loop\<close>

text \<open>
  Two loops that do not behave as C4 says. The \<^verbatim>\<open>extract\<close> of the hook without
  persistence starts the interval timer and issues no status request at that moment:
  the first one goes out with the first tick. And a loop started for the empty
  identifier issues no request on a tick, since the timer's callback tests
  \<^verbatim>\<open>jobIdRef.current\<close> for truthiness.
\<close>

theorem loop_start_counterexample:
  "running (Timer 1) legacy_polling_started
   \<and> trace legacy_polling_started =
       [StartExtraction ''https://youtube.com/watch?v=XYZ'' MP3 Q192,
        SetInterval (Timer 1) 1000]
   \<and> fetches legacy_polling_started = []
   \<and> running (Timer 1) empty_id_polling
   \<and> jobIdRef empty_id_polling = Some []
   \<and> added empty_id_polling (tick (Timer 1) empty_id_polling) = []"
  by (simp add: legacy_polling_started_def empty_id_polling_def fixture_defs hook_defs Let_def)

text \<open>
  C4, as the code has it, for \<^verbatim>\<open>startPolling\<close> of the persistent hook and a job
  identifier that is not empty. Starting the loop issues one status request at once and
  starts one interval timer, whose period is \<^verbatim>\<open>pollingInterval\<close>, or 1000 ms when none
  is given. Every tick of a running timer, while the identifier is held, issues exactly
  one further request. An answer with a status that is not terminal, and a failed
  request, leave timers and references as they are. An answer with a terminal status
  stops the timer the hook holds, and a tick of a stopped timer does nothing. In the hook
  without persistence, starting the loop starts the timer and does nothing else.
\<close>

theorem polling_loop_mechanics:
  assumes "i \<noteq> []"
  shows "added s (startPolling opts i s) =
           [GetJob i, SetInterval (Timer (next_timer s)) (interval opts)]
    \<and> interval \<lparr>pollingInterval = None\<rparr> = 1000
    \<and> interval \<lparr>pollingInterval = Some ms\<rparr> = ms
    \<and> pollingRef (startPolling opts i s) = Some (Timer (next_timer s))
    \<and> running (Timer (next_timer s)) (startPolling opts i s)
    \<and> jobIdRef (startPolling opts i s) = Some i
    \<and> (running t u \<and> jobIdRef u = Some i \<longrightarrow> added u (tick t u) = [GetJob i])
    \<and> (\<not> terminal (status j) \<longrightarrow>
          timers (pollJob_settle (Resolved (Some j)) u) = timers u
          \<and> jobIdRef (pollJob_settle (Resolved (Some j)) u) = jobIdRef u
          \<and> pollingRef (pollJob_settle (Resolved (Some j)) u) = pollingRef u)
    \<and> (timers (pollJob_settle (Rejected err) u) = timers u
          \<and> jobIdRef (pollJob_settle (Rejected err) u) = jobIdRef u
          \<and> pollingRef (pollJob_settle (Rejected err) u) = pollingRef u)
    \<and> (terminal (status j) \<and> pollingRef u = Some t \<longrightarrow>
          \<not> running t (pollJob_settle (Resolved (Some j)) u)
          \<and> tick t (pollJob_settle (Resolved (Some j)) u)
              = pollJob_settle (Resolved (Some j)) u)
    \<and> added u (fst (legacy_extract_settle opts (Resolved (Some j)) u))
        = [SetInterval (Timer (next_timer u)) (interval opts)]"
proof -
  have legacy: "added u (fst (legacy_extract_settle opts (Resolved (Some j)) u))
        = [SetInterval (Timer (next_timer u)) (interval opts)]"
    by (simp add: legacy_extract_settle_def setInterval_def Let_def)
  have start: "added s (startPolling opts i s) =
           [GetJob i, SetInterval (Timer (next_timer s)) (interval opts)]"
    "pollingRef (startPolling opts i s) = Some (Timer (next_timer s))"
    "running (Timer (next_timer s)) (startPolling opts i s)"
    "jobIdRef (startPolling opts i s) = Some i"
    by (simp_all add: running_def)
  have every: "interval \<lparr>pollingInterval = None\<rparr> = 1000"
    "interval \<lparr>pollingInterval = Some ms\<rparr> = ms"
    by (simp_all add: interval_def)
  have one_per_tick: "added u (tick t u) = [GetJob i]"
    if "running t u \<and> jobIdRef u = Some i"
    using that assms by (simp add: tick_def pollJob_request_def)
  have goes_on: "timers (pollJob_settle (Resolved (Some j)) u) = timers u
          \<and> jobIdRef (pollJob_settle (Resolved (Some j)) u) = jobIdRef u
          \<and> pollingRef (pollJob_settle (Resolved (Some j)) u) = pollingRef u"
    if "\<not> terminal (status j)"
    using that by (simp add: settle_in_progress)
  have stops: "\<not> running t (pollJob_settle (Resolved (Some j)) u)
          \<and> tick t (pollJob_settle (Resolved (Some j)) u)
              = pollJob_settle (Resolved (Some j)) u"
    if "terminal (status j) \<and> pollingRef u = Some t"
  proof -
    from that have "\<not> running t (pollJob_settle (Resolved (Some j)) u)"
      by (auto simp: settle_terminal_timers running_def)
    then show ?thesis
      by (simp add: tick_def)
  qed
  from start every one_per_tick goes_on stops legacy show ?thesis
    by simp
qed

text \<open>The loop of the job \<open>abc\<close> under the default options.\<close>

theorem polling_loop_mechanics_witness:
  "''abc'' \<noteq> []
   \<and> added (mount Map.empty) (startPolling default_options ''abc'' (mount Map.empty))
       = [GetJob ''abc'', SetInterval (Timer 1) 1000]
   \<and> added polling_started (tick (Timer 1) polling_started) = [GetJob ''abc'']
   \<and> timers (pollJob_settle (Resolved (Some (sample_job ''abc'' Processing None)))
                polling_started) = [(Timer 1, 1000)]
   \<and> \<not> running (Timer 1)
         (pollJob_settle (Resolved (Some (sample_job ''abc'' Completed None))) polling_started)"
proof -
  have ne: "''abc'' \<noteq> []" by simp
  have st: "running (Timer 1) polling_started \<and> jobIdRef polling_started = Some ''abc''"
    "pollingRef polling_started = Some (Timer 1)" "timers polling_started = [(Timer 1, 1000)]"
    by (simp_all add: fixture_defs extract_call_def extract_settle_def running_def
        mount_def interval_def)
  have busy: "\<not> terminal (status (sample_job ''abc'' Processing None))"
    by (simp add: terminal_def sample_job_def)
  have fin: "terminal (status (sample_job ''abc'' Completed None))"
    by (simp add: terminal_def sample_job_def)
  note m = polling_loop_mechanics [OF ne]
  from m [of "mount Map.empty" default_options]
  have 1: "added (mount Map.empty) (startPolling default_options ''abc'' (mount Map.empty))
       = [GetJob ''abc'', SetInterval (Timer 1) 1000]"
    by (simp add: mount_def interval_def default_options_def)
  from m [of _ _ _ "Timer 1" polling_started] st(1)
  have 2: "added polling_started (tick (Timer 1) polling_started) = [GetJob ''abc'']"
    by blast
  from m [of _ _ _ _ polling_started "sample_job ''abc'' Processing None"] busy st(3)
  have 3: "timers (pollJob_settle (Resolved (Some (sample_job ''abc'' Processing None)))
                polling_started) = [(Timer 1, 1000)]"
    by simp
  from m [of _ _ _ "Timer 1" polling_started "sample_job ''abc'' Completed None"] fin st(2)
  have 4: "\<not> running (Timer 1)
         (pollJob_settle (Resolved (Some (sample_job ''abc'' Completed None))) polling_started)"
    by blast
  from ne 1 2 3 4 show ?thesis by simp
qed

section \<open>Overlapping starts\<close>

text \<open>
  C5 says that at most one poll loop is ever active. \<^verbatim>\<open>extract\<close> clears the timer the
  hook holds when it is called, but \<^verbatim>\<open>startPolling\<close>, which runs when the request is
  answered, overwrites \<^verbatim>\<open>pollingRef.current\<close> without clearing what it holds. When
  another start happens between the two, both timers run and nothing was cancelled. The
  hook then holds the second handle only, so neither \<^verbatim>\<open>reset()\<close>, nor the unmount
  clean-up, nor a terminal answer stops the first timer.
\<close>

theorem overlapping_starts_leave_two_timers:
  "map fst (timers resume_then_submit_run) = [Timer 1, Timer 2]
   \<and> pollingRef resume_then_submit_run = Some (Timer 2)
   \<and> cancels resume_then_submit_run = []
   \<and> running (Timer 1) (reset resume_then_submit_run)
   \<and> running (Timer 1) (unmount resume_then_submit_run)
   \<and> running (Timer 1)
        (pollJob_settle (Resolved (Some (sample_job ''new'' Completed None)))
           resume_then_submit_run)
   \<and> map fst (timers double_submit_run) = [Timer 1, Timer 2]
   \<and> pollingRef double_submit_run = Some (Timer 2)
   \<and> cancels double_submit_run = []"
  by (simp add: resume_then_submit_run_def double_submit_run_def fixture_defs hook_defs
        Let_def)

section \<open>Failed submission\<close>

text \<open>
  C6. When the request of \<^verbatim>\<open>extract\<close> is rejected, the call returns \<^verbatim>\<open>null\<close>, the
  error state holds the message of the rejection (a fixed message when the rejection is
  no \<^verbatim>\<open>Error\<close>), and \<^verbatim>\<open>onError\<close> is called once with an error of that message. The
  call leaves no job, no timer reference and neither flag set; it issues no status
  request and starts no timer. The \<^verbatim>\<open>catch\<close> branch itself, whatever ran since the
  call, touches neither the job nor the timers.
\<close>

theorem failed_submission_surfaces_error_and_starts_nothing:
  "snd (extract_call opts url fmt q (Rejected err) s) = None
   \<and> error (fst (extract_call opts url fmt q (Rejected err) s)) =
       Some (if instanceof_Error err then err_message err
             else ''Error al iniciar extracci'' @ [CHR 0xF3] @ ''n'')
   \<and> added s (fst (extract_call opts url fmt q (Rejected err) s)) =
       held_timer_cancel s @
       [StartExtraction url fmt q,
        OnError (if instanceof_Error err then err
                 else Error (''Error al iniciar extracci'' @ [CHR 0xF3] @ ''n''))]
   \<and> job (fst (extract_call opts url fmt q (Rejected err) s)) = None
   \<and> pollingRef (fst (extract_call opts url fmt q (Rejected err) s)) = None
   \<and> isPolling (fst (extract_call opts url fmt q (Rejected err) s)) = False
   \<and> isLoading (fst (extract_call opts url fmt q (Rejected err) s)) = False
   \<and> fetches (fst (extract_call opts url fmt q (Rejected err) s)) = fetches s
   \<and> set (timers (fst (extract_call opts url fmt q (Rejected err) s))) \<subseteq> set (timers s)
   \<and> job (fst (extract_settle opts (Rejected err) u)) = job u
   \<and> pollingRef (fst (extract_settle opts (Rejected err) u)) = pollingRef u
   \<and> timers (fst (extract_settle opts (Rejected err) u)) = timers u
   \<and> isPolling (fst (extract_settle opts (Rejected err) u)) = isPolling u"
proof -
  have settle: "extract_settle opts (Rejected err) u = extract_catch err u" for u
    by (simp add: extract_settle_def)
  have call: "extract_call opts url fmt q (Rejected err) s
                = extract_catch err (extract_request url fmt q s)"
    by (simp add: extract_call_def settle)
  have no_fetch: "fetches (fst (extract_catch err (extract_request url fmt q s))) = fetches s"
    by (simp add: fetches_def held_timer_cancel_def split: option.split)
  have fewer: "set (timers (extract_request url fmt q s)) \<subseteq> set (timers s)"
    by (auto split: option.split)
  show ?thesis
    unfolding call settle using no_fetch fewer by simp
qed

section \<open>Failure reported by the service\<close>

text \<open>
  The message passed to \<^verbatim>\<open>onError\<close> is \<^verbatim>\<open>updatedJob.result?.error || 'Error'\<close>. A
  result whose \<^verbatim>\<open>error\<close> is present but empty is therefore reported with the fallback,
  not with its own message.
\<close>

theorem empty_error_message_counterexample:
  "status (failed_job (Some [])) = Failed
   \<and> result_error_of (failed_job (Some [])) = Some []
   \<and> callbacks (pollJob_settle (Resolved (Some (failed_job (Some [])))) polling_started)
       = [OnError (Error ''Error'')]"
  by (simp add: failed_job_def result_error_of_def or_else_def fixture_defs hook_defs Let_def)

text \<open>
  C7, as the code has it. An answer with status \<open>failed\<close> clears the timer the hook
  holds, if any, and then calls \<^verbatim>\<open>onError\<close> once: with the job's \<^verbatim>\<open>result.error\<close> as
  message when that is present and not empty, and with the message \<^verbatim>\<open>Error\<close> when the
  result, or its \<^verbatim>\<open>error\<close>, is absent or empty. Afterwards no identifier is
  persisted, the hook holds no timer and the timer it held no longer runs.
\<close>

theorem failed_status_reports_error:
  assumes "status j = Failed"
  shows "(result_error_of j = Some m \<and> m \<noteq> [] \<longrightarrow>
            added s (pollJob_settle (Resolved (Some j)) s)
              = held_timer_cancel s @ [OnError (Error m)])
    \<and> (result_error_of j = None \<or> result_error_of j = Some [] \<longrightarrow>
            added s (pollJob_settle (Resolved (Some j)) s)
              = held_timer_cancel s @ [OnError (Error ''Error'')])
    \<and> getSavedJobId (pollJob_settle (Resolved (Some j)) s) = None
    \<and> pollingRef (pollJob_settle (Resolved (Some j)) s) = None
    \<and> (case pollingRef s of None \<Rightarrow> True
        | Some t \<Rightarrow> \<not> running t (pollJob_settle (Resolved (Some j)) s))"
proof -
  let ?s' = "pollJob_settle (Resolved (Some j)) s"
  from assms have t: "terminal (status j)"
    by (simp add: terminal_def)
  have call: "added s ?s' = held_timer_cancel s @ [OnError (Error (or_else (result_error_of j) ''Error''))]"
    using assms by (simp add: settle_terminal_trace [OF t] outcome_def)
  have given: "or_else (result_error_of j) ''Error'' = m"
    if "result_error_of j = Some m \<and> m \<noteq> []"
    using that by (simp add: or_else_def)
  have fallback: "or_else (result_error_of j) ''Error'' = ''Error''"
    if "result_error_of j = None \<or> result_error_of j = Some []"
    using that by (auto simp: or_else_def)
  have store: "getSavedJobId ?s' = None"
    by (simp add: getSavedJobId_def settle_terminal_storage [OF t])
  have stopped: "case pollingRef s of None \<Rightarrow> True | Some t \<Rightarrow> \<not> running t ?s'"
    by (auto simp: settle_terminal_timers [OF t] running_def split: option.split)
  from call given fallback store settle_terminal_pollingRef [OF t] stopped
  show ?thesis by simp
qed

text \<open>
  The job fails with \<^verbatim>\<open>result.error = "Video too long"\<close>; and it fails with a result
  that carries no message.
\<close>

theorem failed_status_reports_error_witness:
  "status (failed_job (Some ''Video too long'')) = Failed
   \<and> added polling_started
        (pollJob_settle (Resolved (Some (failed_job (Some ''Video too long'')))) polling_started)
       = [ClearInterval (Timer 1), OnError (Error ''Video too long'')]
   \<and> getSavedJobId
        (pollJob_settle (Resolved (Some (failed_job (Some ''Video too long'')))) polling_started)
       = None
   \<and> \<not> running (Timer 1)
        (pollJob_settle (Resolved (Some (failed_job (Some ''Video too long'')))) polling_started)
   \<and> added polling_started
        (pollJob_settle (Resolved (Some (failed_job None))) polling_started)
       = [ClearInterval (Timer 1), OnError (Error ''Error'')]"
proof -
  have f: "status (failed_job e) = Failed" for e
    by (simp add: failed_job_def sample_job_def)
  have e: "result_error_of (failed_job e) = e" for e
    by (simp add: failed_job_def sample_job_def result_error_of_def)
  have held: "pollingRef polling_started = Some (Timer 1)"
    "held_timer_cancel polling_started = [ClearInterval (Timer 1)]"
    by (simp_all add: fixture_defs extract_call_def extract_settle_def mount_def
        held_timer_cancel_def)
  from failed_status_reports_error [OF f, of "Some ''Video too long''" "''Video too long''"
      polling_started] e held
  have 1: "added polling_started
        (pollJob_settle (Resolved (Some (failed_job (Some ''Video too long'')))) polling_started)
       = [ClearInterval (Timer 1), OnError (Error ''Video too long'')]
   \<and> getSavedJobId
        (pollJob_settle (Resolved (Some (failed_job (Some ''Video too long'')))) polling_started)
       = None
   \<and> \<not> running (Timer 1)
        (pollJob_settle (Resolved (Some (failed_job (Some ''Video too long'')))) polling_started)"
    by simp
  from failed_status_reports_error [OF f, of None _ polling_started] e held
  have 2: "added polling_started
        (pollJob_settle (Resolved (Some (failed_job None))) polling_started)
       = [ClearInterval (Timer 1), OnError (Error ''Error'')]"
    by simp
  from f 1 2 show ?thesis by simp
qed

section \<open>Transient poll failures\<close>

text \<open>
  C8. A poll fetch that fails at the transport level is logged and swallowed: the only
  thing that changes is the console log. The timer, the references, the stored job, the
  error state and the persisted identifier stay as they were and no callback is called;
  a successful response that arrives afterwards is handled exactly as it would have been
  without the failure.
\<close>

theorem pollJob_transient_failure_swallowed:
  "pollJob_settle (Rejected err) s = s\<lparr>trace := trace s @ [ConsoleError err]\<rparr>
   \<and> pollJob_settle (Resolved (Some j)) (pollJob_settle (Rejected err) s)
       = (pollJob_settle (Resolved (Some j)) s)
           \<lparr>trace := trace s @ ConsoleError err # drop (length (trace s))
                                   (trace (pollJob_settle (Resolved (Some j)) s))\<rparr>"
  by (simp add: pollJob_settle_def emit_def clearJobId_def clear_polling_def
        clearInterval_def update_videoInfo_def Let_def
        split: option.splits)

section \<open>Errors of the API client\<close>

text \<open>
  Both clients build the message as \<^verbatim>\<open>error.detail || fallback\<close>. A \<^verbatim>\<open>detail\<close> that is
  the empty string is falsy, so the fallback replaces it; and a \<^verbatim>\<open>detail\<close> that is no
  string (a list of validation errors, say) reaches the \<^verbatim>\<open>Error\<close> constructor, which
  converts it to a string.
\<close>

theorem falsy_detail_counterexample:
  "\<not> ok \<lparr>http_status = 500, body = Inr (JObj [(''detail'', JStr [])])\<rparr>
   \<and> request (Resolved \<lparr>http_status = 500, body = Inr (JObj [(''detail'', JStr [])])\<rparr>)
       = Inl (Error ''HTTP 500'')
   \<and> handleResponse \<lparr>http_status = 500, body = Inr (JObj [(''detail'', JStr [])])\<rparr>
       = Inl (ApiError 500 ''Error en la solicitud'')
   \<and> request (Resolved \<lparr>http_status = 422,
        body = Inr (JObj [(''detail'', JArr [JObj [(''msg'', JStr ''field required'')]])])\<rparr>)
       = Inl (Error ''[object Object]'')"
  by (simp add: ok_def request_def handleResponse_def js_or_def digit_def show_nat.simps)

text \<open>
  C9, as the code has it. For a response whose status is outside 200..299: when the
  body is JSON with a \<^verbatim>\<open>detail\<close> that is a string and not empty, the error thrown has
  exactly that string as its message; when the body is not JSON, the message is
  \<^verbatim>\<open>Error desconocido\<close>; when the body is JSON without \<^verbatim>\<open>detail\<close>, or with an empty
  one, the message is the client's fallback (\<^verbatim>\<open>HTTP\<close> and the status for \<^verbatim>\<open>request\<close>,
  \<^verbatim>\<open>Error en la solicitud\<close> for \<^verbatim>\<open>handleResponse\<close>). A body that is JSON \<^verbatim>\<open>null\<close>
  is none of these: reading its \<^verbatim>\<open>detail\<close> throws, and that \<^verbatim>\<open>TypeError\<close> is what the
  caller gets.
\<close>

theorem non_2xx_error_message:
  assumes "\<not> ok r"
  shows "(body r = Inr v \<and> detail_of v = Inr (Some (JStr d)) \<and> d \<noteq> [] \<longrightarrow>
            request (Resolved r) = Inl (Error d)
            \<and> handleResponse r = Inl (ApiError (http_status r) d))
    \<and> (body r = Inl e \<longrightarrow>
            request (Resolved r) = Inl (Error ''Error desconocido'')
            \<and> handleResponse r = Inl (ApiError (http_status r) ''Error desconocido''))
    \<and> (body r = Inr v \<and> (detail_of v = Inr None \<or> detail_of v = Inr (Some (JStr []))) \<longrightarrow>
            request (Resolved r) = Inl (Error (''HTTP '' @ show_nat (http_status r)))
            \<and> handleResponse r = Inl (ApiError (http_status r) ''Error en la solicitud''))
    \<and> (body r = Inr JNull \<longrightarrow>
            request (Resolved r) = Inl (null_property ''detail'')
            \<and> handleResponse r = Inl (null_property ''detail''))"
  using assms
  by (auto simp: request_def handleResponse_def js_or_def)

text \<open>
  A 404 with a detail, a 502 whose body is not JSON, a 500 with an empty object, a 500
  whose body is \<^verbatim>\<open>null\<close>.
\<close>

theorem non_2xx_error_message_witness:
  "\<not> ok \<lparr>http_status = 404, body = Inr (JObj [(''detail'', JStr ''Job not found'')])\<rparr>
   \<and> request (Resolved \<lparr>http_status = 404,
                         body = Inr (JObj [(''detail'', JStr ''Job not found'')])\<rparr>)
       = Inl (Error ''Job not found'')
   \<and> handleResponse \<lparr>http_status = 404,
                      body = Inr (JObj [(''detail'', JStr ''Job not found'')])\<rparr>
       = Inl (ApiError 404 ''Job not found'')
   \<and> request (Resolved \<lparr>http_status = 502, body = Inl (SyntaxError ''Unexpected token'')\<rparr>)
       = Inl (Error ''Error desconocido'')
   \<and> request (Resolved \<lparr>http_status = 500, body = Inr (JObj [])\<rparr>) = Inl (Error ''HTTP 500'')
   \<and> request (Resolved \<lparr>http_status = 500, body = Inr JNull\<rparr>)
       = Inl (null_property ''detail'')"
proof -
  let ?a = "\<lparr>http_status = 404, body = Inr (JObj [(''detail'', JStr ''Job not found'')])\<rparr>"
  let ?b = "\<lparr>http_status = 502, body = Inl (SyntaxError ''Unexpected token'')\<rparr>"
  let ?c = "\<lparr>http_status = 500, body = Inr (JObj [])\<rparr> :: http_response"
  let ?d = "\<lparr>http_status = 500, body = Inr JNull\<rparr> :: http_response"
  have a: "\<not> ok ?a" and b: "\<not> ok ?b" and c: "\<not> ok ?c" and d: "\<not> ok ?d"
    by (simp_all add: ok_def)
  from non_2xx_error_message [OF a, of "JObj [(''detail'', JStr ''Job not found'')]" "''Job not found''"]
  have 1: "request (Resolved ?a) = Inl (Error ''Job not found'')
       \<and> handleResponse ?a = Inl (ApiError 404 ''Job not found'')"
    by simp
  from non_2xx_error_message [OF b, of _ _ "SyntaxError ''Unexpected token''"]
  have 2: "request (Resolved ?b) = Inl (Error ''Error desconocido'')"
    by simp
  from non_2xx_error_message [OF c, of "JObj []"]
  have 3: "request (Resolved ?c) = Inl (Error ''HTTP 500'')"
    by (simp add: show_nat.simps digit_def)
  from non_2xx_error_message [OF d]
  have 4: "request (Resolved ?d) = Inl (null_property ''detail'')"
    by simp
  from a 1 2 3 4 show ?thesis by simp
qed

section \<open>The persisted identifier across a failed submission\<close>

text \<open>
  Two things C10 says do not hold. The slot is not cleared on terminal observation and
  \<^verbatim>\<open>reset()\<close> only: the mount effect also clears it when its status request fails.
  And a persisted identifier that survives a failed submission is not always resumed:
  the empty string stays in the slot, and start-up asks for nothing.
\<close>

theorem persisted_slot_counterexample:
  "getSavedJobId resumed_hook = Some ''abc''
   \<and> getSavedJobId
        (resume_settle default_options ''abc'' (Rejected (Error ''Job not found''))
           resumed_hook) = None
   \<and> snd (extract_call default_options ''https://youtube.com/watch?v=bad'' MP3 Q192
            (Rejected (Error ''URL no soportada'')) empty_id_stored) = None
   \<and> getSavedJobId
        (fst (extract_call default_options ''https://youtube.com/watch?v=bad'' MP3 Q192
                (Rejected (Error ''URL no soportada'')) empty_id_stored)) = Some []
   \<and> snd (resume_request (mount (localStorage
        (fst (extract_call default_options ''https://youtube.com/watch?v=bad'' MP3 Q192
                (Rejected (Error ''URL no soportada'')) empty_id_stored))))) = None
   \<and> trace (fst (resume_request (mount (localStorage
        (fst (extract_call default_options ''https://youtube.com/watch?v=bad'' MP3 Q192
                (Rejected (Error ''URL no soportada'')) empty_id_stored)))))) = []"
  by (simp add: resumed_hook_def empty_id_stored_def extract_call_def extract_settle_def
      resume_settle_def resume_request_def getSavedJobId_def mount_def)

text \<open>
  C10, as the code has it. A call of \<^verbatim>\<open>extract\<close> that fails (it returns \<^verbatim>\<open>null\<close>)
  leaves \<^verbatim>\<open>localStorage\<close> as it found it: neither the part that runs at the call nor
  the \<^verbatim>\<open>catch\<close> branch writes or removes the key. Over all events of the hook, the
  slot is written only by the answer to a submission that carries a job, and cleared
  only by a terminal status (seen by a poll or by the mount effect), by an answer to
  the mount effect's request that is a failure or carries no job, and by \<^verbatim>\<open>reset()\<close>.
  A later start-up therefore does what it would have done without the failed
  submission, and when the surviving identifier is not empty, start-up issues exactly
  one status request, for that identifier.
\<close>

theorem failed_submission_keeps_persisted_identifier:
  assumes "snd (extract_call opts url fmt q p s) = None"
  shows "localStorage (extract_request url fmt q s) = localStorage s
    \<and> localStorage (fst (extract_call opts url fmt q p s)) = localStorage s
    \<and> getSavedJobId (fst (extract_call opts url fmt q p s)) = getSavedJobId s
    \<and> localStorage (step opts' ev u) =
        (case slot_effect ev of
           Kept \<Rightarrow> localStorage u
         | Written w \<Rightarrow> (localStorage u)(STORAGE_KEY \<mapsto> w)
         | Cleared \<Rightarrow> (localStorage u)(STORAGE_KEY := None))
    \<and> resume_request (mount (localStorage (fst (extract_call opts url fmt q p s))))
        = resume_request (mount (localStorage s))
    \<and> (getSavedJobId s = Some i \<and> i \<noteq> [] \<longrightarrow>
          snd (resume_request (mount (localStorage (fst (extract_call opts url fmt q p s)))))
            = Some i
          \<and> trace (fst (resume_request
                (mount (localStorage (fst (extract_call opts url fmt q p s))))))
            = [GetJob i])"
proof -
  have kept: "localStorage (fst (extract_call opts url fmt q p s)) = localStorage s"
  proof (cases p)
    case (Rejected err)
    then show ?thesis
      by (simp add: extract_call_def extract_settle_def)
  next
    case (Resolved r)
    with assms have "r = None"
      by (cases r) (simp_all add: extract_call_def extract_settle_def)
    with Resolved show ?thesis
      by (simp add: extract_call_def extract_settle_def)
  qed
  have again: "snd (resume_request (mount (localStorage s))) = Some i
      \<and> trace (fst (resume_request (mount (localStorage s)))) = [GetJob i]"
    if "getSavedJobId s = Some i \<and> i \<noteq> []"
    using that by (simp add: resume_request_def getSavedJobId_def mount_def emit_def)
  from kept again step_storage [of opts' ev u] show ?thesis
    by (simp add: getSavedJobId_def)
qed

text \<open>
  A submission is rejected while the job \<open>abc\<close> is being polled; then, from the same
  state, a reset and a poll answer that is not terminal.
\<close>

theorem failed_submission_keeps_persisted_identifier_witness:
  "snd (extract_call default_options ''https://youtube.com/watch?v=bad'' MP3 Q192
          (Rejected (Error ''URL no soportada'')) polling_started) = None
   \<and> getSavedJobId polling_started = Some ''abc''
   \<and> getSavedJobId
        (fst (extract_call default_options ''https://youtube.com/watch?v=bad'' MP3 Q192
                (Rejected (Error ''URL no soportada'')) polling_started)) = Some ''abc''
   \<and> snd (resume_request (mount (localStorage
        (fst (extract_call default_options ''https://youtube.com/watch?v=bad'' MP3 Q192
                (Rejected (Error ''URL no soportada'')) polling_started))))) = Some ''abc''
   \<and> trace (fst (resume_request (mount (localStorage
        (fst (extract_call default_options ''https://youtube.com/watch?v=bad'' MP3 Q192
                (Rejected (Error ''URL no soportada'')) polling_started)))))) = [GetJob ''abc'']
   \<and> getSavedJobId (step default_options ResetCalled polling_started) = None
   \<and> getSavedJobId
        (step default_options (PollSettled (Resolved (Some (sample_job ''abc'' Processing None))))
           polling_started) = Some ''abc''"
proof -
  have failed: "snd (extract_call default_options ''https://youtube.com/watch?v=bad'' MP3 Q192
          (Rejected (Error ''URL no soportada'')) polling_started) = None"
    by (simp add: extract_call_def extract_settle_def)
  have saved: "getSavedJobId polling_started = Some ''abc''"
    by (simp add: fixture_defs extract_call_def extract_settle_def getSavedJobId_def)
  have ne: "''abc'' \<noteq> []"
    by simp
  have busy: "\<not> terminal (status (sample_job ''abc'' Processing None))"
    by (simp add: terminal_def sample_job_def)
  note inst = failed_submission_keeps_persisted_identifier [OF failed]
  from inst [of _ _ _ "''abc''"] saved ne
  have 1: "getSavedJobId
        (fst (extract_call default_options ''https://youtube.com/watch?v=bad'' MP3 Q192
                (Rejected (Error ''URL no soportada'')) polling_started)) = Some ''abc''
   \<and> snd (resume_request (mount (localStorage
        (fst (extract_call default_options ''https://youtube.com/watch?v=bad'' MP3 Q192
                (Rejected (Error ''URL no soportada'')) polling_started))))) = Some ''abc''
   \<and> trace (fst (resume_request (mount (localStorage
        (fst (extract_call default_options ''https://youtube.com/watch?v=bad'' MP3 Q192
                (Rejected (Error ''URL no soportada'')) polling_started)))))) = [GetJob ''abc'']"
    by metis
  from inst [of default_options ResetCalled polling_started]
  have 2: "getSavedJobId (step default_options ResetCalled polling_started) = None"
    by (simp add: getSavedJobId_def)
  from inst [of default_options
      "PollSettled (Resolved (Some (sample_job ''abc'' Processing None)))" polling_started]
    busy saved
  have 3: "getSavedJobId
        (step default_options (PollSettled (Resolved (Some (sample_job ''abc'' Processing None))))
           polling_started) = Some ''abc''"
    by (simp add: getSavedJobId_def)
  from failed saved 1 2 3 show ?thesis
    by simp
qed

section \<open>Successful submission\<close>

text \<open>
  What C5 says of a submission that succeeds, without the consequence drawn there.
  At the call, \<^verbatim>\<open>extract\<close> first clears the timer the hook holds and then clears error
  and job; only then the request goes out. When the request is answered with a job,
  the job is stored, its identifier is written to storage under the fixed key, and
  polling starts: one status request and a new timer, which the hook holds. When
  nothing else runs between call and answer, and the timer the hook held was the only
  one running, the new timer is the only one running afterwards.
\<close>

theorem successful_submission_effects:
  "snd (extract_call opts url fmt q (Resolved (Some j)) s) = Some j
   \<and> added s (extract_request url fmt q s) = held_timer_cancel s @ [StartExtraction url fmt q]
   \<and> pollingRef (extract_request url fmt q s) = None
   \<and> error (extract_request url fmt q s) = None
   \<and> job (extract_request url fmt q s) = None
   \<and> (case pollingRef s of None \<Rightarrow> True
       | Some t \<Rightarrow> \<not> running t (extract_request url fmt q s))
   \<and> added s (fst (extract_call opts url fmt q (Resolved (Some j)) s)) =
       held_timer_cancel s @
       [StartExtraction url fmt q, GetJob (job_id j),
        SetInterval (Timer (next_timer s)) (interval opts)]
   \<and> job (fst (extract_call opts url fmt q (Resolved (Some j)) s)) = Some j
   \<and> localStorage (fst (extract_call opts url fmt q (Resolved (Some j)) s))
       = (localStorage s)(STORAGE_KEY \<mapsto> job_id j)
   \<and> pollingRef (fst (extract_call opts url fmt q (Resolved (Some j)) s))
       = Some (Timer (next_timer s))
   \<and> running (Timer (next_timer s)) (fst (extract_call opts url fmt q (Resolved (Some j)) s))
   \<and> jobIdRef (fst (extract_call opts url fmt q (Resolved (Some j)) s)) = Some (job_id j)
   \<and> isPolling (fst (extract_call opts url fmt q (Resolved (Some j)) s))
   \<and> \<not> isLoading (fst (extract_call opts url fmt q (Resolved (Some j)) s))
   \<and> error (fst (extract_call opts url fmt q (Resolved (Some j)) s)) = None
   \<and> (single_loop s \<longrightarrow>
        map fst (timers (fst (extract_call opts url fmt q (Resolved (Some j)) s)))
          = [Timer (next_timer s)])"
proof -
  have stopped: "case pollingRef s of None \<Rightarrow> True
       | Some t \<Rightarrow> \<not> running t (extract_request url fmt q s)"
    by (auto simp: running_def split: option.split)
  have alone: "map fst (timers (fst (extract_call opts url fmt q (Resolved (Some j)) s)))
          = [Timer (next_timer s)]" if "single_loop s"
    using that
    by (auto simp: extract_call_resolved single_loop_def split: option.splits)
  from stopped alone show ?thesis
    by (simp add: extract_call_resolved running_def)
qed

text \<open>A second submission while the job \<open>abc\<close> is being polled.\<close>

theorem successful_submission_effects_witness:
  "single_loop polling_started
   \<and> added polling_started
        (fst (extract_call default_options ''https://vimeo.com/1'' M4A Q320
                (Resolved (Some (sample_job ''xyz'' Pending None))) polling_started))
       = [ClearInterval (Timer 1), StartExtraction ''https://vimeo.com/1'' M4A Q320,
          GetJob ''xyz'', SetInterval (Timer 2) 1000]
   \<and> map fst (timers
        (fst (extract_call default_options ''https://vimeo.com/1'' M4A Q320
                (Resolved (Some (sample_job ''xyz'' Pending None))) polling_started)))
       = [Timer 2]
   \<and> getSavedJobId
        (fst (extract_call default_options ''https://vimeo.com/1'' M4A Q320
                (Resolved (Some (sample_job ''xyz'' Pending None))) polling_started))
       = Some ''xyz''"
proof -
  have st: "pollingRef polling_started = Some (Timer 1)" "timers polling_started = [(Timer 1, 1000)]"
    "next_timer polling_started = 2"
    by (simp_all add: fixture_defs extract_call_resolved mount_def interval_def)
  then have one: "single_loop polling_started"
    by (simp add: single_loop_def)
  have held: "held_timer_cancel polling_started = [ClearInterval (Timer 1)]"
    by (simp add: held_timer_cancel_def st)
  have iv: "interval default_options = 1000"
    by (simp add: interval_def default_options_def)
  have jid: "job_id (sample_job ''xyz'' Pending None) = ''xyz''"
    by (simp add: sample_job_def)
  from successful_submission_effects [of default_options "''https://vimeo.com/1''" M4A Q320
      "sample_job ''xyz'' Pending None" polling_started] one held iv jid st(3)
  show ?thesis
    by (simp add: getSavedJobId_def)
qed

end
